theory Spec2Isabelle
  imports Main "HOL-Library.Sublist" "HOL-Library.AList"
begin

section \<open>Python values, exceptions and the runtime\<close>

text \<open>
  Event payloads, condition trees, action parameters and the execution context are
  untyped Python data (\<^verbatim>\<open>dict[str, Any]\<close>) decoded from JSON; the context can in
  addition hold the bytes of a downloaded file. A dictionary is an association list in
  insertion order with distinct keys. Text is the list of its code points, restricted to
  the code points below 256. Floating-point numbers are an abstract type \<open>'f\<close>: their
  operations are fields of the runtime record below.
\<close>

datatype 'f pv =
    PNone
  | PBool bool
  | PInt int
  | PFloat 'f
  | PStr string
  | PBytes string
  | PList "'f pv list"
  | PDict "(string \<times> 'f pv) list"

type_synonym 'f pdict = "(string \<times> 'f pv) list"

text \<open>
  An exception has a class name. \<open>Exn c m\<close> was constructed with the message \<open>m\<close>
  (\<^verbatim>\<open>ValueError(f"...")\<close> in the source, or an error of an external service);
  \<open>Fault c d\<close> is raised by the interpreter or a library function while performing the
  operation described by \<open>d\<close>, and its message is the runtime's. Every exception of the
  model is an instance of \<^verbatim>\<open>Exception\<close>.
\<close>

datatype exn = Exn string string | Fault string string

text \<open>
  The parts of the Python runtime that the engine calls and that are not code of the
  repository: float arithmetic and \<^verbatim>\<open>float()\<close> (\<open>None\<close> is the failed conversion),
  \<^verbatim>\<open>re.search\<close> (\<open>Inl e\<close> is the exception it raises, \<^verbatim>\<open>re.error\<close> for a text
  that is no pattern; \<open>Inr b\<close> says whether a match was found), \<^verbatim>\<open>str()\<close> of a value
  that is not text, the message text of
  interpreter-raised exceptions, and the interpreter's limit on the number of digits
  \<^verbatim>\<open>int()\<close> converts (0 is no limit; CPython 3.11 defaults to 4300).
\<close>

record 'f runtime =
  float_eq :: "'f \<Rightarrow> 'f \<Rightarrow> bool"
  float_eq_int :: "'f \<Rightarrow> int \<Rightarrow> bool"
  float_less :: "'f \<Rightarrow> 'f \<Rightarrow> bool"
  float_nonzero :: "'f \<Rightarrow> bool"
  float_of_int :: "int \<Rightarrow> 'f option"
  float_of_text :: "string \<Rightarrow> 'f option"
  float_of_bytes :: "string \<Rightarrow> 'f option"
  re_search :: "string \<Rightarrow> string \<Rightarrow> exn + bool"
  repr_text :: "'f pv \<Rightarrow> string"
  fault_text :: "string \<Rightarrow> string \<Rightarrow> string"
  int_max_str_digits :: nat

definition exc_str :: "'f runtime \<Rightarrow> exn \<Rightarrow> string" where
  "exc_str R e = (case e of Exn c m \<Rightarrow> m | Fault c d \<Rightarrow> fault_text R c d)"

subsection \<open>Truth value, equality, \<^verbatim>\<open>dict.get\<close>, \<^verbatim>\<open>str()\<close>, \<^verbatim>\<open>float()\<close>\<close>

definition truthy :: "'f runtime \<Rightarrow> 'f pv \<Rightarrow> bool" where
  "truthy R v =
     (case v of
        PNone \<Rightarrow> False
      | PBool b \<Rightarrow> b
      | PInt i \<Rightarrow> i \<noteq> 0
      | PFloat f \<Rightarrow> float_nonzero R f
      | PStr s \<Rightarrow> s \<noteq> []
      | PBytes s \<Rightarrow> s \<noteq> []
      | PList xs \<Rightarrow> xs \<noteq> []
      | PDict d \<Rightarrow> d \<noteq> [])"

definition py_or :: "'f runtime \<Rightarrow> 'f pv \<Rightarrow> 'f pv \<Rightarrow> 'f pv" where
  "py_or R a b = (if truthy R a then a else b)"

definition bool_int :: "bool \<Rightarrow> int" where
  "bool_int b = (if b then 1 else 0)"

definition num_eq :: "'f runtime \<Rightarrow> int \<Rightarrow> 'f pv \<Rightarrow> bool" where
  "num_eq R i b =
     (case b of
        PBool y \<Rightarrow> i = bool_int y
      | PInt j \<Rightarrow> i = j
      | PFloat g \<Rightarrow> float_eq_int R g i
      | _ \<Rightarrow> False)"

text \<open>
  Python's \<^verbatim>\<open>==\<close> on these values: \<^verbatim>\<open>True == 1\<close> and \<^verbatim>\<open>1 == 1.0\<close> hold, sequences
  are equal when they have equal length and equal elements, dictionaries when they have
  the same keys with equal values, whatever the order. The two operands of every
  comparison of the engine are decoded separately, so the identity shortcut of the
  container comparisons never replaces a comparison of two floats.
\<close>

function py_eq :: "'f runtime \<Rightarrow> 'f pv \<Rightarrow> 'f pv \<Rightarrow> bool"
  and py_eq_list :: "'f runtime \<Rightarrow> 'f pv list \<Rightarrow> 'f pv list \<Rightarrow> bool"
  and py_eq_items :: "'f runtime \<Rightarrow> 'f pdict \<Rightarrow> 'f pdict \<Rightarrow> bool" where
  "py_eq R PNone b = (b = PNone)"
| "py_eq R (PBool x) b = num_eq R (bool_int x) b"
| "py_eq R (PInt i) b = num_eq R i b"
| "py_eq R (PFloat f) b =
     (case b of
        PBool y \<Rightarrow> float_eq_int R f (bool_int y)
      | PInt j \<Rightarrow> float_eq_int R f j
      | PFloat g \<Rightarrow> float_eq R f g
      | _ \<Rightarrow> False)"
| "py_eq R (PStr s) b = (b = PStr s)"
| "py_eq R (PBytes s) b = (b = PBytes s)"
| "py_eq R (PList xs) b = (case b of PList ys \<Rightarrow> py_eq_list R xs ys | _ \<Rightarrow> False)"
| "py_eq R (PDict d) b =
     (case b of PDict e \<Rightarrow> length d = length e \<and> py_eq_items R d e | _ \<Rightarrow> False)"
| "py_eq_list R [] ys = (ys = [])"
| "py_eq_list R (x # xs) ys =
     (case ys of [] \<Rightarrow> False | y # ys' \<Rightarrow> py_eq R x y \<and> py_eq_list R xs ys')"
| "py_eq_items R [] e = True"
| "py_eq_items R (kv # d) e =
     ((case map_of e (fst kv) of None \<Rightarrow> False | Some v' \<Rightarrow> py_eq R (snd kv) v')
      \<and> py_eq_items R d e)"
  by pat_completeness auto
termination
  by (relation "measure (\<lambda>x. case x of
        Inl (R, a, b) \<Rightarrow> size a
      | Inr (Inl (R, xs, ys)) \<Rightarrow> size_list size xs
      | Inr (Inr (R, d, e)) \<Rightarrow> size_list (\<lambda>kv. Suc (size (snd kv))) d)")
     (auto simp: size_prod_simp[abs_def])

definition py_get :: "'f pdict \<Rightarrow> string \<Rightarrow> 'f pv" where
  "py_get d k = (case map_of d k of None \<Rightarrow> PNone | Some v \<Rightarrow> v)"

text \<open>\<^verbatim>\<open>d or {}\<close> for a dictionary that may be \<^verbatim>\<open>None\<close>.\<close>

definition or_empty :: "'f pdict option \<Rightarrow> 'f pdict" where
  "or_empty d = (case d of None \<Rightarrow> [] | Some p \<Rightarrow> if p \<noteq> [] then p else [])"

definition py_get_default :: "'f pdict \<Rightarrow> string \<Rightarrow> 'f pv \<Rightarrow> 'f pv" where
  "py_get_default d k dflt = (case map_of d k of None \<Rightarrow> dflt | Some v \<Rightarrow> v)"

definition py_str :: "'f runtime \<Rightarrow> 'f pv \<Rightarrow> string" where
  "py_str R v = (case v of PStr s \<Rightarrow> s | _ \<Rightarrow> repr_text R v)"

definition py_float :: "'f runtime \<Rightarrow> 'f pv \<Rightarrow> exn + 'f" where
  "py_float R v =
     (case v of
        PNone \<Rightarrow> Inl (Fault ''TypeError'' ''float'')
      | PBool b \<Rightarrow>
          (case float_of_int R (bool_int b) of
             None \<Rightarrow> Inl (Fault ''OverflowError'' ''float'')
           | Some f \<Rightarrow> Inr f)
      | PInt i \<Rightarrow>
          (case float_of_int R i of
             None \<Rightarrow> Inl (Fault ''OverflowError'' ''float'')
           | Some f \<Rightarrow> Inr f)
      | PFloat f \<Rightarrow> Inr f
      | PStr s \<Rightarrow>
          (case float_of_text R s of
             None \<Rightarrow> Inl (Fault ''ValueError'' ''float'')
           | Some f \<Rightarrow> Inr f)
      | PBytes s \<Rightarrow>
          (case float_of_bytes R s of
             None \<Rightarrow> Inl (Fault ''ValueError'' ''float'')
           | Some f \<Rightarrow> Inr f)
      | PList xs \<Rightarrow> Inl (Fault ''TypeError'' ''float'')
      | PDict d \<Rightarrow> Inl (Fault ''TypeError'' ''float''))"

subsection \<open>Text operations\<close>

text \<open>\<^verbatim>\<open>s.split(sep)\<close> for a separator of one character: at least one part.\<close>

fun str_split :: "char \<Rightarrow> string \<Rightarrow> string list" where
  "str_split sep [] = [[]]"
| "str_split sep (c # cs) =
     (if c = sep then [] # str_split sep cs
      else (case str_split sep cs of [] \<Rightarrow> [[c]] | p # ps \<Rightarrow> (c # p) # ps))"

text \<open>
  \<^verbatim>\<open>str.isdigit()\<close> accepts the decimal digits and, below code point 256, the
  superscript digits U+00B2, U+00B3 and U+00B9 as well; \<^verbatim>\<open>int()\<close> converts decimal
  digits only and raises \<^verbatim>\<open>ValueError\<close> otherwise, also when there are more digits
  than the interpreter's limit. \<open>py_int\<close> gives \<^verbatim>\<open>int(s)\<close> for a text that
  \<^verbatim>\<open>isdigit()\<close> accepts.
\<close>

definition is_decimal_char :: "char \<Rightarrow> bool" where
  "is_decimal_char c = (c \<in> set ''0123456789'')"

definition is_digit_char :: "char \<Rightarrow> bool" where
  "is_digit_char c = (is_decimal_char c \<or> c = CHR 0xB2 \<or> c = CHR 0xB3 \<or> c = CHR 0xB9)"

definition py_isdigit :: "string \<Rightarrow> bool" where
  "py_isdigit s = (s \<noteq> [] \<and> list_all is_digit_char s)"

definition digit_value :: "char \<Rightarrow> int" where
  "digit_value c = of_char c - 48"

definition decimal_value :: "string \<Rightarrow> int" where
  "decimal_value s = foldl (\<lambda>n c. 10 * n + digit_value c) 0 s"

definition py_int :: "'f runtime \<Rightarrow> string \<Rightarrow> exn + int" where
  "py_int R s =
     (if \<not> list_all is_decimal_char s then Inl (Fault ''ValueError'' ''int'')
      else if 0 < int_max_str_digits R \<and> int_max_str_digits R < length s
        then Inl (Fault ''ValueError'' ''int'')
      else Inr (decimal_value s))"

section \<open>Trigger handler (\<^verbatim>\<open>app/engine/triggers.py\<close>)\<close>

record 'f trigger =
  source :: string
  event_type :: string
  conditions :: "'f pdict option"

subsection \<open>\<^verbatim>\<open>TriggerHandler._resolve_field\<close>\<close>

fun walk_path :: "'f runtime \<Rightarrow> string list \<Rightarrow> 'f pv \<Rightarrow> exn + 'f pv" where
  "walk_path R [] current = Inr current"
| "walk_path R (part # parts) current =
     (case current of
        PDict d \<Rightarrow> walk_path R parts (py_get d part)
      | PList xs \<Rightarrow>
          (if py_isdigit part then
             (case py_int R part of
                Inl e \<Rightarrow> Inl e
              | Inr idx \<Rightarrow>
                  walk_path R parts (if idx < int (length xs) then xs ! nat idx else PNone))
           else Inr PNone)
      | _ \<Rightarrow> Inr PNone)"

definition resolve_field :: "'f runtime \<Rightarrow> 'f pv \<Rightarrow> 'f pdict \<Rightarrow> exn + 'f pv" where
  "resolve_field R field_path data =
     (case field_path of
        PStr s \<Rightarrow> walk_path R (str_split CHR ''.'' s) (PDict data)
      | PBytes s \<Rightarrow> Inl (Fault ''TypeError'' ''split'')
      | _ \<Rightarrow> Inl (Fault ''AttributeError'' ''split''))"

subsection \<open>\<^verbatim>\<open>TriggerHandler._compare\<close>\<close>

definition exn_class :: "exn \<Rightarrow> string" where
  "exn_class e = (case e of Exn c m \<Rightarrow> c | Fault c d \<Rightarrow> c)"

definition float_pair :: "'f runtime \<Rightarrow> 'f pv \<Rightarrow> 'f pv \<Rightarrow> exn + ('f \<times> 'f)" where
  "float_pair R a b =
     (case py_float R a of
        Inl e \<Rightarrow> Inl e
      | Inr x \<Rightarrow> (case py_float R b of Inl e \<Rightarrow> Inl e | Inr y \<Rightarrow> Inr (x, y)))"

text \<open>
  \<^verbatim>\<open>try: return float(actual) OP float(expected)\<close> with
  \<^verbatim>\<open>except (TypeError, ValueError): return False\<close>; any other exception leaves the
  function. \<open>a > b\<close> on floats is \<open>b < a\<close>.
\<close>

definition float_test ::
  "'f runtime \<Rightarrow> ('f \<Rightarrow> 'f \<Rightarrow> bool) \<Rightarrow> 'f pv \<Rightarrow> 'f pv \<Rightarrow> exn + bool" where
  "float_test R rel actual expected =
     (case float_pair R actual expected of
        Inl e \<Rightarrow>
          (if exn_class e = ''TypeError'' \<or> exn_class e = ''ValueError'' then Inr False
           else Inl e)
      | Inr (x, y) \<Rightarrow> Inr (rel x y))"

definition compare :: "'f runtime \<Rightarrow> 'f pv \<Rightarrow> 'f pv \<Rightarrow> 'f pv \<Rightarrow> exn + bool" where
  "compare R operator actual expected =
     (if py_eq R operator (PStr ''eq'') then Inr (py_eq R actual expected)
      else if py_eq R operator (PStr ''ne'') then Inr (\<not> py_eq R actual expected)
      else if py_eq R operator (PStr ''contains'') then
        (case actual of
           PStr s \<Rightarrow> Inr (sublist (py_str R expected) s)
         | PList xs \<Rightarrow> Inr (list_ex (\<lambda>x. py_eq R x expected) xs)
         | _ \<Rightarrow> Inr False)
      else if py_eq R operator (PStr ''in'') then
        (case expected of
           PList xs \<Rightarrow> Inr (list_ex (\<lambda>x. py_eq R x actual) xs)
         | _ \<Rightarrow> Inr False)
      else if py_eq R operator (PStr ''matches'') then
        (case actual of
           PStr s \<Rightarrow>
             (case expected of
                PStr pat \<Rightarrow>
                  (case re_search R pat s of
                     Inl e \<Rightarrow> Inl e
                   | Inr found \<Rightarrow> Inr found)
              | _ \<Rightarrow> Inr False)
         | _ \<Rightarrow> Inr False)
      else if py_eq R operator (PStr ''gt'') then
        float_test R (\<lambda>x y. float_less R y x) actual expected
      else if py_eq R operator (PStr ''lt'') then
        float_test R (\<lambda>x y. float_less R x y) actual expected
      else if py_eq R operator (PStr ''exists'') then
        Inr ((actual \<noteq> PNone) = truthy R expected)
      else Inr False)"

subsection \<open>\<^verbatim>\<open>TriggerHandler._evaluate_conditions\<close>\<close>

text \<open>
  \<^verbatim>\<open>all(... for c in xs)\<close> and \<^verbatim>\<open>any(... for c in xs)\<close> over a generator stop at
  the first element that decides the result, or at the first one that raises.
\<close>

fun py_all :: "(exn + bool) list \<Rightarrow> exn + bool" where
  "py_all [] = Inr True"
| "py_all (r # rs) =
     (case r of Inl e \<Rightarrow> Inl e | Inr b \<Rightarrow> if b then py_all rs else Inr False)"

fun py_any :: "(exn + bool) list \<Rightarrow> exn + bool" where
  "py_any [] = Inr False"
| "py_any (r # rs) =
     (case r of Inl e \<Rightarrow> Inl e | Inr b \<Rightarrow> if b then Inr True else py_any rs)"

text \<open>
  What evaluating a condition that is not a dictionary raises: \<^verbatim>\<open>"all" in c\<close> is a
  substring test on a text and a membership test on a list, and fails on any other
  value; where it (or \<^verbatim>\<open>"any" in c\<close>) holds, \<^verbatim>\<open>c["all"]\<close> fails, and where neither
  holds, \<^verbatim>\<open>c.get\<close> does not exist.
\<close>

definition non_mapping_exn :: "'f runtime \<Rightarrow> 'f pv \<Rightarrow> exn" where
  "non_mapping_exn R c =
     (case c of
        PStr s \<Rightarrow>
          (if sublist ''all'' s \<or> sublist ''any'' s then Fault ''TypeError'' ''getitem''
           else Fault ''AttributeError'' ''get'')
      | PList xs \<Rightarrow>
          (if list_ex (\<lambda>x. py_eq R x (PStr ''all'')) xs
              \<or> list_ex (\<lambda>x. py_eq R x (PStr ''any'')) xs
           then Fault ''TypeError'' ''getitem''
           else Fault ''AttributeError'' ''get'')
      | _ \<Rightarrow> Fault ''TypeError'' ''contains'')"

text \<open>
  Iterating a value that is not a list: a text yields its characters, bytes yield
  integers, a dictionary yields its keys; none of these is a dictionary, so evaluating
  any of them raises. Any other value is not iterable.
\<close>

definition iter_non_list :: "'f runtime \<Rightarrow> 'f pv \<Rightarrow> exn + (exn + bool) list" where
  "iter_non_list R v =
     (case v of
        PStr s \<Rightarrow> Inr (map (\<lambda>ch. Inl (non_mapping_exn R (PStr [ch]))) s)
      | PBytes s \<Rightarrow> Inr (map (\<lambda>ch. Inl (non_mapping_exn R (PInt (of_char ch)))) s)
      | PDict d \<Rightarrow> Inr (map (\<lambda>kv. Inl (non_mapping_exn R (PStr (fst kv)))) d)
      | _ \<Rightarrow> Inl (Fault ''TypeError'' ''iter''))"

function (sequential) evaluate_conditions ::
  "'f runtime \<Rightarrow> 'f pv \<Rightarrow> 'f pdict \<Rightarrow> exn + bool" where
  "evaluate_conditions R (PDict cond) event_data =
     (case map_of cond ''all'' of
        Some v \<Rightarrow>
          (case v of
             PList cs \<Rightarrow> py_all (map (\<lambda>sub. evaluate_conditions R sub event_data) cs)
           | _ \<Rightarrow> (case iter_non_list R v of Inl e \<Rightarrow> Inl e | Inr rs \<Rightarrow> py_all rs))
      | None \<Rightarrow>
          (case map_of cond ''any'' of
             Some v \<Rightarrow>
               (case v of
                  PList cs \<Rightarrow> py_any (map (\<lambda>sub. evaluate_conditions R sub event_data) cs)
                | _ \<Rightarrow> (case iter_non_list R v of Inl e \<Rightarrow> Inl e | Inr rs \<Rightarrow> py_any rs))
           | None \<Rightarrow>
               (let field = py_get cond ''field'';
                    operator = py_get_default cond ''operator'' (PStr ''eq'');
                    expected = py_get cond ''value''
                in if field = PNone then Inr True
                   else (case resolve_field R field event_data of
                           Inl e \<Rightarrow> Inl e
                         | Inr actual \<Rightarrow> compare R operator actual expected))))"
| "evaluate_conditions R c event_data = Inl (non_mapping_exn R c)"
  by pat_completeness auto
termination
proof (relation "measure (\<lambda>(R, c, event_data). size c)")
  have sub: "size x < Suc (size_list (\<lambda>kv. Suc (size (snd kv))) d)"
    if "(k, PList cs) \<in> set d" and "x \<in> set cs"
    for k :: string and cs d and x :: "'f pv"
  proof -
    have "size x \<le> size_list size cs"
      using that(2) by (rule size_list_estimation') simp
    moreover have "Suc (size (snd (k, PList cs))) \<le> size_list (\<lambda>kv. Suc (size (snd kv))) d"
      using that(1) by (rule size_list_estimation') simp
    ultimately show ?thesis by simp
  qed
  show "wf (measure (\<lambda>(R, c, event_data). size c))"
    by simp
  show "((R, x, event_data), R, PDict d, event_data)
          \<in> measure (\<lambda>(R, c, event_data). size c)"
    if "map_of d ''all'' = Some v" and "v = PList cs" and "x \<in> set cs"
    for R :: "'f runtime" and d v cs x and event_data :: "'f pdict"
    using that sub [of "''all''" cs d x]
    by (auto dest!: map_of_SomeD simp: size_prod_simp[abs_def])
  show "((R, x, event_data), R, PDict d, event_data)
          \<in> measure (\<lambda>(R, c, event_data). size c)"
    if "map_of d ''all'' = None" and "map_of d ''any'' = Some v"
      and "v = PList cs" and "x \<in> set cs"
    for R :: "'f runtime" and d v cs x and event_data :: "'f pdict"
    using that sub [of "''any''" cs d x]
    by (auto dest!: map_of_SomeD simp: size_prod_simp[abs_def])
qed

subsection \<open>\<^verbatim>\<open>TriggerHandler.evaluate_trigger\<close>\<close>

definition evaluate_trigger :: "'f runtime \<Rightarrow> 'f trigger \<Rightarrow> 'f pdict \<Rightarrow> exn + bool" where
  "evaluate_trigger R trigger event_data =
     (let event_source = py_get_default event_data ''source'' (PStr [])
      in if truthy R event_source \<and> \<not> py_eq R event_source (PStr (source trigger))
         then Inr False
         else
           (let event_kind = py_get_default event_data ''event_type'' (PStr [])
            in if truthy R event_kind \<and> \<not> py_eq R event_kind (PStr (event_type trigger))
               then Inr False
               else
                 (let conds = or_empty (conditions trigger)
                  in if conds = [] then Inr True
                     else evaluate_conditions R (PDict conds) event_data)))"

section \<open>Action runner (\<^verbatim>\<open>app/engine/actions.py\<close>)\<close>

text \<open>Of an action the engine reads its type, its parameters and its sort position.\<close>

record 'f action =
  action_type :: string
  parameters :: "'f pdict option"
  sort_order :: int

text \<open>
  The operations of the two connectors are the boundary of the model. Each is performed
  on a state of the outside world and either returns a value or raises; the runner keeps
  the list of the operations it has asked for, and whether each connector has been
  created (\<^verbatim>\<open>_get_paperless\<close>, \<^verbatim>\<open>_get_lexoffice\<close>) and closed.
\<close>

datatype 'f ext_call =
    CreateVoucher "'f pv"
  | UploadDocument "'f pv" "'f pv" "'f pv" "'f pv" "'f pv" "'f pv"
  | SearchContacts "'f pv"
  | CreateContact "'f pv"
  | AddTagToDocument "'f pv" "'f pv"
  | DownloadDocument "'f pv"
  | GetDocument "'f pv"

datatype handle = Unopened | Opened | Closed

record ('f, 'w) runner =
  paperless :: handle
  lexoffice :: handle
  world :: 'w
  calls :: "'f ext_call list"

record ('f, 'w) services =
  perform :: "'f ext_call \<Rightarrow> 'w \<Rightarrow> (exn + 'f pv) \<times> 'w"
  today :: "'w \<Rightarrow> string"

type_synonym ('f, 'w) outcome = "(exn + 'f pdict) \<times> 'f pdict \<times> ('f, 'w) runner"

definition get_paperless :: "('f, 'w) runner \<Rightarrow> ('f, 'w) runner" where
  "get_paperless st = (if paperless st = Unopened then st\<lparr>paperless := Opened\<rparr> else st)"

definition get_lexoffice :: "('f, 'w) runner \<Rightarrow> ('f, 'w) runner" where
  "get_lexoffice st = (if lexoffice st = Unopened then st\<lparr>lexoffice := Opened\<rparr> else st)"

definition close_handle :: "handle \<Rightarrow> handle" where
  "close_handle h = (if h = Unopened then Unopened else Closed)"

definition close :: "('f, 'w) runner \<Rightarrow> ('f, 'w) runner" where
  "close st = st\<lparr>paperless := close_handle (paperless st),
                 lexoffice := close_handle (lexoffice st)\<rparr>"

definition call_ext ::
  "('f, 'w) services \<Rightarrow> 'f ext_call \<Rightarrow> ('f, 'w) runner \<Rightarrow> (exn + 'f pv) \<times> ('f, 'w) runner" where
  "call_ext S c st =
     (case perform S c (world st) of
        (r, w) \<Rightarrow> (r, st\<lparr>world := w, calls := calls st @ [c]\<rparr>))"

text \<open>\<^verbatim>\<open>len(x)\<close> and \<^verbatim>\<open>x[0]\<close> on a value, and \<^verbatim>\<open>d.update(e)\<close> on dictionaries.\<close>

definition py_len :: "'f pv \<Rightarrow> exn + int" where
  "py_len v =
     (case v of
        PStr s \<Rightarrow> Inr (int (length s))
      | PBytes s \<Rightarrow> Inr (int (length s))
      | PList xs \<Rightarrow> Inr (int (length xs))
      | PDict d \<Rightarrow> Inr (int (length d))
      | _ \<Rightarrow> Inl (Fault ''TypeError'' ''len''))"

definition py_first :: "'f pv \<Rightarrow> exn + 'f pv" where
  "py_first v =
     (case v of
        PList xs \<Rightarrow> (case xs of [] \<Rightarrow> Inl (Fault ''IndexError'' ''getitem'') | x # _ \<Rightarrow> Inr x)
      | PStr s \<Rightarrow> (case s of [] \<Rightarrow> Inl (Fault ''IndexError'' ''getitem'') | c # _ \<Rightarrow> Inr (PStr [c]))
      | PBytes s \<Rightarrow>
          (case s of [] \<Rightarrow> Inl (Fault ''IndexError'' ''getitem'') | c # _ \<Rightarrow> Inr (PInt (of_char c)))
      | PDict d \<Rightarrow> Inl (Fault ''KeyError'' ''getitem'')
      | _ \<Rightarrow> Inl (Fault ''TypeError'' ''getitem''))"

definition dict_update :: "'f pdict \<Rightarrow> 'f pdict \<Rightarrow> 'f pdict" where
  "dict_update d e = foldl (\<lambda>acc kv. AList.update (fst kv) (snd kv) acc) d e"

subsection \<open>The five handlers\<close>

definition create_lexoffice_voucher ::
  "'f runtime \<Rightarrow> ('f, 'w) services \<Rightarrow> 'f action \<Rightarrow> 'f pdict \<Rightarrow> ('f, 'w) runner
     \<Rightarrow> ('f, 'w) outcome" where
  "create_lexoffice_voucher R S action context st =
     (let st1 = get_lexoffice st;
          params = or_empty (parameters action);
          voucher_data =
            [(''type'', py_get_default params ''voucher_type'' (PStr ''purchaseinvoice'')),
             (''voucherNumber'', py_get_default params ''voucher_number'' (PStr [])),
             (''voucherDate'',
                py_get_default params ''voucher_date'' (PStr (today S (world st1)))),
             (''totalGrossAmount'',
                py_get_default params ''total_gross_amount''
                  (py_get_default context ''total_gross_amount'' (PInt 0))),
             (''taxType'', py_get_default params ''tax_type'' (PStr ''gross'')),
             (''voucherItems'', py_get_default params ''voucher_items'' (PList []))];
          contact_id =
            py_or R (py_get params ''contact_id'') (py_get context ''lexoffice_contact_id'');
          voucher_data2 =
            (if truthy R contact_id then voucher_data @ [(''contactId'', contact_id)]
             else voucher_data)
      in case call_ext S (CreateVoucher (PDict voucher_data2)) st1 of
           (Inl e, st2) \<Rightarrow> (Inl e, context, st2)
         | (Inr result, st2) \<Rightarrow>
             (case result of
                PDict d \<Rightarrow> (Inr [(''voucher'', result)], context, st2)
              | _ \<Rightarrow> (Inl (Fault ''AttributeError'' ''get''), context, st2)))"

definition upload_to_paperless ::
  "'f runtime \<Rightarrow> ('f, 'w) services \<Rightarrow> 'f action \<Rightarrow> 'f pdict \<Rightarrow> ('f, 'w) runner
     \<Rightarrow> ('f, 'w) outcome" where
  "upload_to_paperless R S action context st =
     (let st1 = get_paperless st;
          params = or_empty (parameters action);
          file_content = py_get_default context ''file_content'' (PBytes []);
          filename =
            py_get_default params ''filename''
              (py_get_default context ''filename'' (PStr ''document.pdf''));
          title = py_or R (py_get params ''title'') (py_get context ''title'');
          correspondent =
            py_or R (py_get params ''correspondent_id'') (py_get context ''correspondent_id'');
          document_type =
            py_or R (py_get params ''document_type_id'') (py_get context ''document_type_id'');
          tags = py_or R (py_get params ''tag_ids'') (py_get context ''tag_ids'')
      in case call_ext S
                (UploadDocument file_content filename title correspondent document_type tags)
                st1 of
           (Inl e, st2) \<Rightarrow> (Inl e, context, st2)
         | (Inr result, st2) \<Rightarrow> (Inr [(''upload'', result)], context, st2))"

definition sync_contact ::
  "'f runtime \<Rightarrow> ('f, 'w) services \<Rightarrow> 'f action \<Rightarrow> 'f pdict \<Rightarrow> ('f, 'w) runner
     \<Rightarrow> ('f, 'w) outcome" where
  "sync_contact R S action context st =
     (let st1 = get_lexoffice (get_paperless st);
          params = or_empty (parameters action);
          correspondent_name =
            py_get_default params ''correspondent_name''
              (py_get_default context ''correspondent_name'' (PStr []))
      in if \<not> truthy R correspondent_name
         then (Inr [(''synced'', PBool False),
                    (''reason'', PStr ''No correspondent name provided'')], context, st1)
         else
           (case call_ext S (SearchContacts correspondent_name) st1 of
              (Inl e, st2) \<Rightarrow> (Inl e, context, st2)
            | (Inr search_result, st2) \<Rightarrow>
                (case search_result of
                   PDict sr \<Rightarrow>
                     (let contacts = py_get_default sr ''content'' (PList [])
                      in if truthy R contacts
                         then
                           (case py_first contacts of
                              Inl e \<Rightarrow> (Inl e, context, st2)
                            | Inr contact \<Rightarrow>
                                (case contact of
                                   PDict cd \<Rightarrow>
                                     (Inr [(''synced'', PBool True),
                                           (''lexoffice_contact_id'',
                                              py_get_default cd ''id'' (PStr [])),
                                           (''created'', PBool False)], context, st2)
                                 | _ \<Rightarrow> (Inl (Fault ''AttributeError'' ''get''), context, st2)))
                         else
                           (case call_ext S
                                   (CreateContact
                                      (PDict [(''version'', PInt 0),
                                              (''roles'', PDict [(''customer'', PDict [])]),
                                              (''company'',
                                                 PDict [(''name'', correspondent_name)])]))
                                   st2 of
                              (Inl e, st3) \<Rightarrow> (Inl e, context, st3)
                            | (Inr new_contact, st3) \<Rightarrow>
                                (case new_contact of
                                   PDict nd \<Rightarrow>
                                     (Inr [(''synced'', PBool True),
                                           (''lexoffice_contact_id'',
                                              py_get_default nd ''id'' (PStr [])),
                                           (''created'', PBool True)], context, st3)
                                 | _ \<Rightarrow> (Inl (Fault ''AttributeError'' ''get''), context, st3))))
                 | _ \<Rightarrow> (Inl (Fault ''AttributeError'' ''get''), context, st2))))"

definition set_tag ::
  "'f runtime \<Rightarrow> ('f, 'w) services \<Rightarrow> 'f action \<Rightarrow> 'f pdict \<Rightarrow> ('f, 'w) runner
     \<Rightarrow> ('f, 'w) outcome" where
  "set_tag R S action context st =
     (let st1 = get_paperless st;
          params = or_empty (parameters action);
          document_id =
            py_or R (py_get params ''document_id'')
              (py_get_default context ''document_id'' (PInt 0));
          tag_id = py_get_default params ''tag_id'' (PInt 0)
      in if \<not> truthy R document_id \<or> \<not> truthy R tag_id
         then (Inr [(''tagged'', PBool False),
                    (''reason'', PStr ''Missing document_id or tag_id'')], context, st1)
         else
           (case call_ext S (AddTagToDocument document_id tag_id) st1 of
              (Inl e, st2) \<Rightarrow> (Inl e, context, st2)
            | (Inr result, st2) \<Rightarrow>
                (Inr [(''tagged'', PBool True), (''document'', result)], context, st2)))"

definition download_document ::
  "'f runtime \<Rightarrow> ('f, 'w) services \<Rightarrow> 'f action \<Rightarrow> 'f pdict \<Rightarrow> ('f, 'w) runner
     \<Rightarrow> ('f, 'w) outcome" where
  "download_document R S action context st =
     (let st1 = get_paperless st;
          params = or_empty (parameters action);
          document_id =
            py_or R (py_get params ''document_id'')
              (py_get_default context ''document_id'' (PInt 0))
      in if \<not> truthy R document_id
         then (Inr [(''downloaded'', PBool False),
                    (''reason'', PStr ''Missing document_id'')], context, st1)
         else
           (case call_ext S (DownloadDocument document_id) st1 of
              (Inl e, st2) \<Rightarrow> (Inl e, context, st2)
            | (Inr content, st2) \<Rightarrow>
                (case call_ext S (GetDocument document_id) st2 of
                   (Inl e, st3) \<Rightarrow> (Inl e, context, st3)
                 | (Inr doc_meta, st3) \<Rightarrow>
                     (case doc_meta of
                        PDict md \<Rightarrow>
                          (let filename =
                                 py_get_default md ''original_file_name''
                                   (PStr (''document_'' @ py_str R document_id @ ''.pdf''));
                               context2 =
                                 AList.update ''filename'' filename
                                   (AList.update ''file_content'' content context)
                           in case py_len content of
                                Inl e \<Rightarrow> (Inl e, context2, st3)
                              | Inr n \<Rightarrow>
                                  (Inr [(''downloaded'', PBool True),
                                        (''filename'', filename),
                                        (''size'', PInt n)], context2, st3))
                      | _ \<Rightarrow> (Inl (Fault ''AttributeError'' ''get''), context, st3)))))"

subsection \<open>The registry and the dispatcher\<close>

definition action_map ::
  "string \<Rightarrow> ('f runtime \<Rightarrow> ('f, 'w) services \<Rightarrow> 'f action \<Rightarrow> 'f pdict \<Rightarrow> ('f, 'w) runner
     \<Rightarrow> ('f, 'w) outcome) option" where
  "action_map t =
     (if t = ''create_lexoffice_voucher'' then Some create_lexoffice_voucher
      else if t = ''upload_to_paperless'' then Some upload_to_paperless
      else if t = ''sync_contact'' then Some sync_contact
      else if t = ''set_tag'' then Some set_tag
      else if t = ''download_document'' then Some download_document
      else None)"

definition run_action ::
  "'f runtime \<Rightarrow> ('f, 'w) services \<Rightarrow> 'f action \<Rightarrow> 'f pdict \<Rightarrow> ('f, 'w) runner
     \<Rightarrow> ('f, 'w) outcome" where
  "run_action R S action context st =
     (case action_map (action_type action) of
        None \<Rightarrow>
          (Inl (Exn ''ValueError'' (''Unknown action type: '' @ action_type action)),
           context, st)
      | Some handler \<Rightarrow> handler R S action context st)"

section \<open>Workflow executor (\<^verbatim>\<open>app/engine/executor.py\<close>)\<close>

text \<open>
  A workflow identifier is the text of the UUID. The record store is a lookup from
  identifiers to workflows; the log entry carries the fields that
  \<^verbatim>\<open>execute_workflow\<close> assigns. Releasing the connectors is taken to succeed.
\<close>

record 'f workflow =
  name :: string
  enabled :: bool
  triggers :: "'f trigger list"
  actions :: "'f action list"

record 'f workflow_log =
  workflow_id :: string
  status :: string
  input_data :: "'f pdict"
  output_data :: "'f pv option"
  error_message :: "string option"

text \<open>The loop over the triggers stops at the first match (\<^verbatim>\<open>break\<close>).\<close>

fun first_match :: "'f runtime \<Rightarrow> 'f trigger list \<Rightarrow> 'f pdict \<Rightarrow> exn + bool" where
  "first_match R [] trigger_data = Inr False"
| "first_match R (trigger # rest) trigger_data =
     (case evaluate_trigger R trigger trigger_data of
        Inl e \<Rightarrow> Inl e
      | Inr matched \<Rightarrow> if matched then Inr True else first_match R rest trigger_data)"

text \<open>
  The loop over the sorted actions: each result is appended to the results and merged
  into the context; an exception leaves the loop.
\<close>

fun run_actions ::
  "'f runtime \<Rightarrow> ('f, 'w) services \<Rightarrow> 'f action list \<Rightarrow> 'f pdict \<Rightarrow> 'f pv list
     \<Rightarrow> ('f, 'w) runner \<Rightarrow> (exn + 'f pv list) \<times> 'f pdict \<times> ('f, 'w) runner" where
  "run_actions R S [] context action_results st = (Inr action_results, context, st)"
| "run_actions R S (action # rest) context action_results st =
     (case run_action R S action context st of
        (Inl e, context2, st2) \<Rightarrow> (Inl e, context2, st2)
      | (Inr action_result, context2, st2) \<Rightarrow>
          run_actions R S rest (dict_update context2 action_result)
            (action_results @
               [PDict [(''action_type'', PStr (action_type action)),
                       (''result'', PDict action_result)]])
            st2)"

text \<open>The body of the \<^verbatim>\<open>try\<close> block: \<open>Inl\<close> is the exception that leaves it.\<close>

definition execute_body ::
  "'f runtime \<Rightarrow> ('f, 'w) services \<Rightarrow> (string \<Rightarrow> 'f workflow option) \<Rightarrow> 'f workflow_log
     \<Rightarrow> string \<Rightarrow> 'f pdict \<Rightarrow> ('f, 'w) runner \<Rightarrow> (exn + 'f workflow_log) \<times> ('f, 'w) runner" where
  "execute_body R S db log_entry wid trigger_data st =
     (case db wid of
        None \<Rightarrow> (Inl (Exn ''ValueError'' (''Workflow '' @ wid @ '' not found'')), st)
      | Some workflow \<Rightarrow>
          if \<not> enabled workflow
          then (Inr (log_entry\<lparr>status := ''skipped'',
                       output_data := Some (PDict [(''reason'', PStr ''Workflow is disabled'')])\<rparr>),
                st)
          else
            (case first_match R (triggers workflow) trigger_data of
               Inl e \<Rightarrow> (Inl e, st)
             | Inr trigger_matched \<Rightarrow>
                 if \<not> trigger_matched \<and> triggers workflow \<noteq> []
                 then (Inr (log_entry\<lparr>status := ''skipped'',
                              output_data :=
                                Some (PDict [(''reason'', PStr ''No trigger matched'')])\<rparr>),
                       st)
                 else
                   (case run_actions R S (sort_key sort_order (actions workflow))
                           trigger_data [] st of
                      (Inl e, context, st2) \<Rightarrow> (Inl e, st2)
                    | (Inr action_results, context, st2) \<Rightarrow>
                        (Inr (log_entry\<lparr>status := ''success'',
                                output_data :=
                                  Some (PDict [(''actions'', PList action_results)])\<rparr>),
                         st2))))"

text \<open>
  \<^verbatim>\<open>session.add(log_entry)\<close> and \<^verbatim>\<open>session.flush()\<close> insert the entry before the
  \<^verbatim>\<open>try\<close> block is entered. The column \<^verbatim>\<open>workflow_logs.workflow_id\<close> is a foreign
  key to \<^verbatim>\<open>workflows.id\<close> that cannot be null, so the insertion of an entry for an
  identifier that the store does not hold fails with \<^verbatim>\<open>IntegrityError\<close>. Other
  failures of the session are not modelled.
\<close>

definition flush_log :: "(string \<Rightarrow> 'f workflow option) \<Rightarrow> 'f workflow_log \<Rightarrow> exn option" where
  "flush_log db log_entry =
     (if db (workflow_id log_entry) = None then Some (Fault ''IntegrityError'' ''flush'')
      else None)"

text \<open>
  \<^verbatim>\<open>execute_workflow\<close>: the entry is created in status \<^verbatim>\<open>running\<close> and flushed;
  an exception of the flush leaves the function (\<open>Inl\<close>). Then
  \<^verbatim>\<open>except Exception\<close> turns an exception of the body into status \<^verbatim>\<open>error\<close>, and
  \<^verbatim>\<open>finally\<close> closes the connectors on every path.
\<close>

definition execute_workflow ::
  "'f runtime \<Rightarrow> ('f, 'w) services \<Rightarrow> (string \<Rightarrow> 'f workflow option) \<Rightarrow> string \<Rightarrow> 'f pdict
     \<Rightarrow> ('f, 'w) runner \<Rightarrow> exn + 'f workflow_log \<times> ('f, 'w) runner" where
  "execute_workflow R S db wid trigger_data st =
     (let log_entry =
            \<lparr>workflow_id = wid, status = ''running'', input_data = trigger_data,
             output_data = None, error_message = None\<rparr>
      in case flush_log db log_entry of
           Some exc \<Rightarrow> Inl exc
         | None \<Rightarrow>
             (case execute_body R S db log_entry wid trigger_data st of
                (Inl exc, st2) \<Rightarrow>
                  Inr (log_entry\<lparr>status := ''error'', error_message := Some (exc_str R exc)\<rparr>,
                       close st2)
              | (Inr finished, st2) \<Rightarrow> Inr (finished, close st2)))"

section \<open>A runtime and services for concrete runs\<close>

text \<open>
  An instance of the runtime on which the definitions can be evaluated: the floats are
  the integers below \<open>2 ^ 1024\<close> in absolute value, \<^verbatim>\<open>float()\<close> reads decimal digits,
  the regular expressions are the literal texts, and an opening parenthesis alone is not
  a pattern. In the services the download returns three bytes, the document is called
  \<^verbatim>\<open>invoice.pdf\<close>, the creation of a voucher is refused, and every other operation
  succeeds with an empty object.
\<close>

definition demo_runtime :: "int runtime" where
  "demo_runtime =
     \<lparr>float_eq = (=),
      float_eq_int = (=),
      float_less = (<),
      float_nonzero = (\<lambda>x. x \<noteq> 0),
      float_of_int = (\<lambda>i. if \<bar>i\<bar> < 2 ^ 1024 then Some i else None),
      float_of_text =
        (\<lambda>s. if s \<noteq> [] \<and> list_all is_decimal_char s
             then Some (decimal_value s) else None),
      float_of_bytes = (\<lambda>s. None),
      re_search =
        (\<lambda>pat s. if pat = ''(''
                  then Inl (Exn ''error'' ''missing ), unterminated subpattern at position 0'')
                  else Inr (sublist pat s)),
      repr_text = (\<lambda>v. ''<object>''),
      fault_text = (\<lambda>c d. c @ '' in '' @ d),
      int_max_str_digits = 4300\<rparr>"

definition demo_services :: "(int, nat) services" where
  "demo_services =
     \<lparr>perform =
        (\<lambda>c w. case c of
                  CreateVoucher v \<Rightarrow> (Inl (Exn ''HTTPStatusError'' ''401 Unauthorized''), Suc w)
                | DownloadDocument d \<Rightarrow> (Inr (PBytes ''pdf''), Suc w)
                | GetDocument d \<Rightarrow>
                    (Inr (PDict [(''original_file_name'', PStr ''invoice.pdf'')]), Suc w)
                | _ \<Rightarrow> (Inr (PDict []), Suc w)),
      today = (\<lambda>w. ''2024-01-01'')\<rparr>"

definition fresh_runner :: "(int, nat) runner" where
  "fresh_runner = \<lparr>paperless = Unopened, lexoffice = Unopened, world = 0, calls = []\<rparr>"

text \<open>
  Two workflows without triggers, their actions stored out of order. The first tags a
  document, then asks for a voucher, which the service refuses, and would then download
  the document. The second tags a document, downloads it and uploads the file again.
\<close>

definition demo_workflow :: "int workflow" where
  "demo_workflow =
     \<lparr>name = ''invoices'', enabled = True, triggers = [],
      actions =
        [\<lparr>action_type = ''download_document'', parameters = Some [(''document_id'', PInt 7)],
          sort_order = 9\<rparr>,
         \<lparr>action_type = ''set_tag'',
          parameters = Some [(''document_id'', PInt 7), (''tag_id'', PInt 3)], sort_order = 2\<rparr>,
         \<lparr>action_type = ''create_lexoffice_voucher'', parameters = None, sort_order = 5\<rparr>]\<rparr>"

definition filing_workflow :: "int workflow" where
  "filing_workflow =
     \<lparr>name = ''filing'', enabled = True, triggers = [],
      actions =
        [\<lparr>action_type = ''upload_to_paperless'', parameters = None, sort_order = 9\<rparr>,
         \<lparr>action_type = ''set_tag'', parameters = Some [(''tag_id'', PInt 3)], sort_order = 2\<rparr>,
         \<lparr>action_type = ''download_document'', parameters = None, sort_order = 5\<rparr>]\<rparr>"

definition demo_db :: "string \<Rightarrow> int workflow option" where
  "demo_db wid =
     (if wid = ''w1'' then Some demo_workflow
      else if wid = ''w2'' then Some filing_workflow
      else None)"

section \<open>Auxiliary facts\<close>

lemma py_eq_PStr: "py_eq R a (PStr s) = (a = PStr s)"
  by (cases a) (auto simp: num_eq_def)

lemmas demo_simps = demo_runtime_def py_get_def py_get_default_def or_empty_def truthy_def
  py_or_def resolve_field_def py_isdigit_def is_digit_char_def is_decimal_char_def py_int_def
  digit_value_def decimal_value_def compare_def py_eq_PStr num_eq_def bool_int_def

lemmas run_simps = run_action_def action_map_def set_tag_def create_lexoffice_voucher_def
  download_document_def upload_to_paperless_def call_ext_def get_paperless_def
  get_lexoffice_def close_def close_handle_def dict_update_def py_len_def demo_services_def
  fresh_runner_def demo_db_def demo_workflow_def filing_workflow_def exc_str_def

subsection \<open>Field resolution, segment by segment\<close>

lemma resolve_field_examples:
  "resolve_field R (PStr ''a.b.1'') [(''a'', PDict [(''b'', PList [PInt 10, PInt 20])])]
     = Inr (PInt 20)
   \<and> resolve_field R (PStr ''a.b.5'') [(''a'', PDict [(''b'', PList [PInt 10, PInt 20])])]
     = Inr PNone
   \<and> resolve_field R (PStr ''a.c'') [(''a'', PDict [(''b'', PList [PInt 10, PInt 20])])]
     = Inr PNone"
  by (auto simp: resolve_field_def py_get_def py_isdigit_def is_digit_char_def
        is_decimal_char_def py_int_def digit_value_def decimal_value_def)

lemma walk_path_list_decimal:
  "list_all is_decimal_char part \<Longrightarrow> part \<noteq> [] \<Longrightarrow>
   int_max_str_digits R = 0 \<or> length part \<le> int_max_str_digits R \<Longrightarrow>
   walk_path R (part # parts) (PList xs)
     = walk_path R parts
         (if decimal_value part < int (length xs) then xs ! nat (decimal_value part) else PNone)"
  by (auto simp: py_isdigit_def is_digit_char_def py_int_def list_all_iff)

lemma walk_path_list_other:
  "\<not> py_isdigit part \<Longrightarrow> walk_path R (part # parts) (PList xs) = Inr PNone"
  by simp

lemma walk_path_scalar:
  "(\<forall>d. current \<noteq> PDict d) \<Longrightarrow> (\<forall>xs. current \<noteq> PList xs) \<Longrightarrow>
   walk_path R (part # parts) current = Inr PNone"
  by (cases current) simp_all

subsection \<open>The action loop and the body of the executor\<close>

lemma run_actions_append_failure:
  "run_actions R S pre ctx rs st = (Inr rs1, ctx1, st1) \<Longrightarrow>
   run_action R S a ctx1 st1 = (Inl e, ctx2, st2) \<Longrightarrow>
   run_actions R S (pre @ a # post) ctx rs st = (Inl e, ctx2, st2)"
proof (induction pre arbitrary: ctx rs st)
  case Nil
  then show ?case by simp
next
  case (Cons b pre)
  obtain r c s where b: "run_action R S b ctx st = (r, c, s)"
    by (cases "run_action R S b ctx st") auto
  show ?case
  proof (cases r)
    case (Inl x)
    with Cons.prems(1) b show ?thesis by simp
  next
    case (Inr res)
    with Cons.prems b Cons.IH show ?thesis by simp
  qed
qed

text \<open>
  The loop on a list of actions that all return: \<open>ctxs\<close> and \<open>sts\<close> are the contexts
  and the states of the runner before each action and after the last one, \<open>results\<close>
  the result of each action.
\<close>

lemma run_actions_trace:
  "length ctxs = Suc (length acts) \<Longrightarrow> length sts = Suc (length acts) \<Longrightarrow>
   length results = length acts \<Longrightarrow>
   (\<forall>i < length acts. \<exists>c.
       run_action R S (acts ! i) (ctxs ! i) (sts ! i) = (Inr (results ! i), c, sts ! Suc i)
       \<and> ctxs ! Suc i = dict_update c (results ! i)) \<Longrightarrow>
   run_actions R S acts (ctxs ! 0) acc (sts ! 0)
     = (Inr (acc @ map (\<lambda>(a, r). PDict [(''action_type'', PStr (action_type a)),
                                           (''result'', PDict r)]) (zip acts results)),
        ctxs ! length acts, sts ! length acts)"
proof (induction acts arbitrary: ctxs sts results acc)
  case Nil
  then show ?case by simp
next
  case (Cons a acts)
  from Cons.prems(1) obtain c0 ctxs' where ctxs: "ctxs = c0 # ctxs'"
    and lc: "length ctxs' = Suc (length acts)"
    by (cases ctxs) auto
  from Cons.prems(2) obtain s0 sts' where sts: "sts = s0 # sts'"
    and ls: "length sts' = Suc (length acts)"
    by (cases sts) auto
  from Cons.prems(3) obtain r0 results' where results: "results = r0 # results'"
    and lr: "length results' = length acts"
    by (cases results) auto
  from Cons.prems(4) [rule_format, of 0] obtain c where
    first: "run_action R S a c0 s0 = (Inr r0, c, sts' ! 0)"
    and c1: "ctxs' ! 0 = dict_update c r0"
    by (auto simp: ctxs sts results)
  have rest: "\<forall>i < length acts. \<exists>c.
       run_action R S (acts ! i) (ctxs' ! i) (sts' ! i) = (Inr (results' ! i), c, sts' ! Suc i)
       \<and> ctxs' ! Suc i = dict_update c (results' ! i)"
  proof (intro allI impI)
    fix i
    assume "i < length acts"
    then have "Suc i < length (a # acts)"
      by simp
    from Cons.prems(4) [rule_format, OF this] show "\<exists>c.
       run_action R S (acts ! i) (ctxs' ! i) (sts' ! i) = (Inr (results' ! i), c, sts' ! Suc i)
       \<and> ctxs' ! Suc i = dict_update c (results' ! i)"
      by (simp add: ctxs sts results)
  qed
  have "run_actions R S acts (ctxs' ! 0)
          (acc @ [PDict [(''action_type'', PStr (action_type a)), (''result'', PDict r0)]])
          (sts' ! 0)
        = (Inr ((acc @ [PDict [(''action_type'', PStr (action_type a)), (''result'', PDict r0)]])
                @ map (\<lambda>(a, r). PDict [(''action_type'', PStr (action_type a)),
                                          (''result'', PDict r)]) (zip acts results')),
           ctxs' ! length acts, sts' ! length acts)"
    by (rule Cons.IH [OF lc ls lr rest])
  then show ?case
    using first c1 by (simp add: ctxs sts results)
qed

lemma execute_body_status:
  "execute_body R S db lg wid td st = (Inr finished, st2) \<Longrightarrow>
     status finished = ''skipped'' \<or> status finished = ''success''"
  by (auto simp: execute_body_def split: option.splits sum.splits prod.splits if_splits)

lemma execute_workflow_found:
  assumes "db wid = Some w"
  shows "\<exists>entry st2. execute_workflow R S db wid td st = Inr (entry, st2)
           \<and> (status entry = ''skipped'' \<or> status entry = ''success'' \<or> status entry = ''error'')"
proof -
  let ?lg = "\<lparr>workflow_id = wid, status = ''running'', input_data = td,
               output_data = None, error_message = None\<rparr>"
  obtain r st2 where b: "execute_body R S db ?lg wid td st = (r, st2)"
    by (cases "execute_body R S db ?lg wid td st") auto
  show ?thesis
  proof (cases r)
    case (Inl exc)
    with b assms show ?thesis
      by (simp add: execute_workflow_def flush_log_def)
  next
    case (Inr finished)
    with b have "status finished = ''skipped'' \<or> status finished = ''success''"
      by (auto dest: execute_body_status)
    with b Inr assms show ?thesis
      by (auto simp: execute_workflow_def flush_log_def)
  qed
qed

section \<open>The workflow executor\<close>

text \<open>
  C1. When the handler of an action raises, \<^verbatim>\<open>execute_workflow\<close> finishes the log
  entry in status \<^verbatim>\<open>error\<close> with the message of the exception as its error text, runs
  none of the actions after the failing one, and keeps nothing of the results collected
  from the earlier actions: the output of the entry stays empty. The sorted actions are
  \<open>pre @ a # post\<close>, every action of \<open>pre\<close> returns and \<open>a\<close> raises \<open>e\<close>; the runner ends
  in the state in which \<open>a\<close> failed, with its connectors closed, whatever \<open>post\<close> holds.
\<close>

theorem execute_workflow_action_error:
  assumes "db wid = Some w" and "enabled w"
    and "first_match R (triggers w) td = Inr m" and "m \<or> triggers w = []"
    and "sort_key sort_order (actions w) = pre @ a # post"
    and "run_actions R S pre td [] st = (Inr rs, ctx, st1)"
    and "run_action R S a ctx st1 = (Inl e, ctx2, st2)"
  shows "execute_workflow R S db wid td st =
           Inr (\<lparr>workflow_id = wid, status = ''error'', input_data = td, output_data = None,
                 error_message = Some (exc_str R e)\<rparr>, close st2)"
proof -
  have "run_actions R S (sort_key sort_order (actions w)) td [] st = (Inl e, ctx2, st2)"
    using assms(5-7) by (simp add: run_actions_append_failure)
  then show ?thesis
    using assms(1-4) by (auto simp: execute_workflow_def execute_body_def flush_log_def)
qed

text \<open>
  The first demo workflow on an event of the document service: the document is tagged,
  the voucher is refused, the download is never asked for, and the entry holds the
  message of the refusal and no output.
\<close>

theorem execute_workflow_action_error_witness:
  "execute_workflow demo_runtime demo_services demo_db ''w1''
     [(''source'', PStr ''paperless'')] fresh_runner
   = Inr (\<lparr>workflow_id = ''w1'', status = ''error'',
           input_data = [(''source'', PStr ''paperless'')], output_data = None,
           error_message = Some ''401 Unauthorized''\<rparr>,
          \<lparr>paperless = Closed, lexoffice = Closed, world = 2,
           calls =
             [AddTagToDocument (PInt 7) (PInt 3),
              CreateVoucher
                (PDict
                  [(''type'', PStr ''purchaseinvoice''),
                   (''voucherNumber'', PStr []),
                   (''voucherDate'', PStr ''2024-01-01''),
                   (''totalGrossAmount'', PInt 0), (''taxType'', PStr ''gross''),
                   (''voucherItems'', PList [])])]\<rparr>)"
proof -
  let ?tag = "\<lparr>action_type = ''set_tag'',
                parameters = Some [(''document_id'', PInt 7), (''tag_id'', PInt 3)],
                sort_order = 2\<rparr> :: int action"
  let ?voucher = "\<lparr>action_type = ''create_lexoffice_voucher'', parameters = None,
                    sort_order = 5\<rparr> :: int action"
  let ?download = "\<lparr>action_type = ''download_document'',
                     parameters = Some [(''document_id'', PInt 7)], sort_order = 9\<rparr> :: int action"
  let ?request = "CreateVoucher
            (PDict
              [(''type'', PStr ''purchaseinvoice''),
               (''voucherNumber'', PStr []),
               (''voucherDate'', PStr ''2024-01-01''),
               (''totalGrossAmount'', PInt 0), (''taxType'', PStr ''gross''),
               (''voucherItems'', PList [])]) :: int ext_call"
  let ?st1 = "\<lparr>paperless = Opened, lexoffice = Unopened, world = Suc 0,
               calls = [AddTagToDocument (PInt 7) (PInt 3)]\<rparr> :: (int, nat) runner"
  let ?st2 = "\<lparr>paperless = Opened, lexoffice = Opened, world = 2,
               calls = [AddTagToDocument (PInt 7) (PInt 3), ?request]\<rparr> :: (int, nat) runner"
  let ?ctx = "[(''source'', PStr ''paperless''), (''tagged'', PBool True),
               (''document'', PDict [])] :: int pdict"
  have "execute_workflow demo_runtime demo_services demo_db ''w1''
          [(''source'', PStr ''paperless'')] fresh_runner
        = Inr (\<lparr>workflow_id = ''w1'', status = ''error'',
                input_data = [(''source'', PStr ''paperless'')], output_data = None,
                error_message =
                  Some (exc_str demo_runtime (Exn ''HTTPStatusError'' ''401 Unauthorized''))\<rparr>,
               close ?st2)"
  proof (rule execute_workflow_action_error
      [where w = demo_workflow and m = False and pre = "[?tag]" and a = ?voucher
         and post = "[?download]" and ctx = ?ctx and ?ctx2.0 = ?ctx and ?st1.0 = ?st1
         and rs = "[PDict [(''action_type'', PStr ''set_tag''),
                           (''result'', PDict [(''tagged'', PBool True),
                                               (''document'', PDict [])])]]"])
    show "demo_db ''w1'' = Some demo_workflow"
      by (simp add: demo_db_def)
    show "enabled demo_workflow"
      by (simp add: demo_workflow_def)
    show "first_match demo_runtime (triggers demo_workflow) [(''source'', PStr ''paperless'')]
            = Inr False"
      by (simp add: demo_workflow_def)
    show "False \<or> triggers demo_workflow = []"
      by (simp add: demo_workflow_def)
    show "sort_key sort_order (actions demo_workflow) = [?tag] @ ?voucher # [?download]"
      by (simp add: demo_workflow_def)
    show "run_actions demo_runtime demo_services [?tag] [(''source'', PStr ''paperless'')] []
            fresh_runner
          = (Inr [PDict [(''action_type'', PStr ''set_tag''),
                         (''result'', PDict [(''tagged'', PBool True),
                                             (''document'', PDict [])])]],
             ?ctx, ?st1)"
      by (simp add: demo_simps run_simps)
    show "run_action demo_runtime demo_services ?voucher ?ctx ?st1
          = (Inl (Exn ''HTTPStatusError'' ''401 Unauthorized''), ?ctx, ?st2)"
      by (simp add: demo_simps run_simps)
  qed
  then show ?thesis
    by (simp add: close_def close_handle_def exc_str_def)
qed

text \<open>
  C2. \<^verbatim>\<open>execute_workflow\<close> is to return a log entry in a terminal status for every
  workflow identifier, also when the workflow cannot be found. For an identifier that
  the store does not hold it returns no entry: the insertion of the entry, which comes
  before the \<^verbatim>\<open>try\<close> block, violates the foreign key of the log table, and the
  \<^verbatim>\<open>IntegrityError\<close> leaves the function; the branch that would record the missing
  workflow as status \<^verbatim>\<open>error\<close> is never reached.
\<close>

theorem execute_workflow_unknown_id_raises:
  "db wid = None \<Longrightarrow>
     execute_workflow R S db wid td st = Inl (Fault ''IntegrityError'' ''flush'')"
  by (simp add: execute_workflow_def flush_log_def)

text \<open>An identifier that the demo store does not hold.\<close>

theorem execute_workflow_unknown_id_raises_witness:
  "demo_db ''w9'' = None
   \<and> execute_workflow demo_runtime demo_services demo_db ''w9'' [] fresh_runner
       = Inl (Fault ''IntegrityError'' ''flush'')"
proof -
  have h: "demo_db ''w9'' = None"
    by (simp add: demo_db_def)
  show ?thesis
    using h execute_workflow_unknown_id_raises
        [where db = demo_db and wid = "''w9''" and R = demo_runtime and S = demo_services
           and td = "[]" and st = fresh_runner, OF h]
    by simp
qed

text \<open>
  C3. For an enabled workflow whose list of triggers is empty, and for every event,
  \<^verbatim>\<open>execute_workflow\<close> evaluates no trigger and never finishes \<^verbatim>\<open>skipped\<close>; it runs
  the actions in ascending sort order. When each action of the sorted list returns, run
  on the context and in the state that the actions before it have left (\<open>ctxs\<close>,
  \<open>sts\<close>, starting from the event and the initial state, each result merged into the
  context), the entry is \<^verbatim>\<open>success\<close>, its output lists the type and the result of
  every action of the sorted list in that order, and the runner ends in the state after
  the last action, with its connectors closed.
\<close>

theorem execute_workflow_no_triggers:
  assumes "db wid = Some w" and "enabled w" and "triggers w = []"
  shows "(\<exists>entry st2. execute_workflow R S db wid td st = Inr (entry, st2)
            \<and> status entry \<noteq> ''skipped''
            \<and> (status entry = ''success'' \<or> status entry = ''error''))
       \<and> (acts = sort_key sort_order (actions w) \<longrightarrow>
          length ctxs = Suc (length acts) \<longrightarrow> length sts = Suc (length acts) \<longrightarrow>
          length results = length acts \<longrightarrow> ctxs ! 0 = td \<longrightarrow> sts ! 0 = st \<longrightarrow>
          (\<forall>i < length acts. \<exists>c.
              run_action R S (acts ! i) (ctxs ! i) (sts ! i)
                = (Inr (results ! i), c, sts ! Suc i)
              \<and> ctxs ! Suc i = dict_update c (results ! i)) \<longrightarrow>
          execute_workflow R S db wid td st =
            Inr (\<lparr>workflow_id = wid, status = ''success'', input_data = td,
                  output_data =
                    Some (PDict [(''actions'',
                      PList (map (\<lambda>(a, r). PDict [(''action_type'', PStr (action_type a)),
                                                    (''result'', PDict r)])
                               (zip acts results)))]),
                  error_message = None\<rparr>,
                 close (sts ! length acts)))"
proof (intro conjI impI)
  obtain entry st2 where e: "execute_workflow R S db wid td st = Inr (entry, st2)"
    and t: "status entry = ''skipped'' \<or> status entry = ''success'' \<or> status entry = ''error''"
    using execute_workflow_found [where db = db and wid = wid, OF assms(1), of R S td st]
    by blast
  have "status entry \<noteq> ''skipped''"
    using e assms
    by (auto simp: execute_workflow_def execute_body_def flush_log_def Let_def
          split: sum.splits prod.splits)
  with e t show "\<exists>entry st2. execute_workflow R S db wid td st = Inr (entry, st2)
            \<and> status entry \<noteq> ''skipped''
            \<and> (status entry = ''success'' \<or> status entry = ''error'')"
    by auto
next
  assume acts: "acts = sort_key sort_order (actions w)"
    and len: "length ctxs = Suc (length acts)" "length sts = Suc (length acts)"
      "length results = length acts"
    and start: "ctxs ! 0 = td" "sts ! 0 = st"
    and step: "\<forall>i < length acts. \<exists>c.
              run_action R S (acts ! i) (ctxs ! i) (sts ! i)
                = (Inr (results ! i), c, sts ! Suc i)
              \<and> ctxs ! Suc i = dict_update c (results ! i)"
  have "run_actions R S acts td [] st
        = (Inr (map (\<lambda>(a, r). PDict [(''action_type'', PStr (action_type a)),
                                      (''result'', PDict r)]) (zip acts results)),
           ctxs ! length acts, sts ! length acts)"
    using run_actions_trace [OF len step, of "[]"] start by simp
  then show "execute_workflow R S db wid td st =
            Inr (\<lparr>workflow_id = wid, status = ''success'', input_data = td,
                  output_data =
                    Some (PDict [(''actions'',
                      PList (map (\<lambda>(a, r). PDict [(''action_type'', PStr (action_type a)),
                                                    (''result'', PDict r)])
                               (zip acts results)))]),
                  error_message = None\<rparr>,
                 close (sts ! length acts))"
    using assms acts
    by (simp add: execute_workflow_def execute_body_def flush_log_def)
qed

text \<open>
  The second demo workflow on an event of the accounting service that names document
  7: the document is tagged, then downloaded, then the downloaded file is uploaded, and
  the entry lists the three results in this order.
\<close>

theorem execute_workflow_no_triggers_witness:
  "demo_db ''w2'' = Some filing_workflow \<and> enabled filing_workflow
   \<and> triggers filing_workflow = []
   \<and> length (sort_key sort_order (actions filing_workflow)) = 3
   \<and> execute_workflow demo_runtime demo_services demo_db ''w2''
       [(''source'', PStr ''lexoffice''), (''document_id'', PInt 7)] fresh_runner
     = Inr (\<lparr>workflow_id = ''w2'', status = ''success'',
             input_data = [(''source'', PStr ''lexoffice''), (''document_id'', PInt 7)],
             output_data =
               Some (PDict [(''actions'',
                 PList [PDict [(''action_type'', PStr ''set_tag''),
                               (''result'', PDict [(''tagged'', PBool True),
                                                   (''document'', PDict [])])],
                        PDict [(''action_type'', PStr ''download_document''),
                               (''result'', PDict [(''downloaded'', PBool True),
                                                   (''filename'', PStr ''invoice.pdf''),
                                                   (''size'', PInt 3)])],
                        PDict [(''action_type'', PStr ''upload_to_paperless''),
                               (''result'', PDict [(''upload'', PDict [])])]])]),
             error_message = None\<rparr>,
            \<lparr>paperless = Closed, lexoffice = Unopened, world = 4,
             calls =
               [AddTagToDocument (PInt 7) (PInt 3), DownloadDocument (PInt 7),
                GetDocument (PInt 7),
                UploadDocument (PBytes ''pdf'') (PStr ''invoice.pdf'') PNone PNone PNone
                  PNone]\<rparr>)"
proof -
  let ?td = "[(''source'', PStr ''lexoffice''), (''document_id'', PInt 7)] :: int pdict"
  let ?tag = "\<lparr>action_type = ''set_tag'', parameters = Some [(''tag_id'', PInt 3)],
                sort_order = 2\<rparr> :: int action"
  let ?download = "\<lparr>action_type = ''download_document'', parameters = None,
                     sort_order = 5\<rparr> :: int action"
  let ?upload = "\<lparr>action_type = ''upload_to_paperless'', parameters = None,
                   sort_order = 9\<rparr> :: int action"
  let ?acts = "[?tag, ?download, ?upload]"
  let ?r0 = "[(''tagged'', PBool True), (''document'', PDict [])] :: int pdict"
  let ?r1 = "[(''downloaded'', PBool True), (''filename'', PStr ''invoice.pdf''),
              (''size'', PInt 3)] :: int pdict"
  let ?r2 = "[(''upload'', PDict [])] :: int pdict"
  let ?c1 = "?td @ ?r0"
  let ?c2 = "?c1 @ [(''file_content'', PBytes ''pdf''), (''filename'', PStr ''invoice.pdf''),
                    (''downloaded'', PBool True), (''size'', PInt 3)]"
  let ?c3 = "?c2 @ ?r2"
  let ?k0 = "AddTagToDocument (PInt 7) (PInt 3) :: int ext_call"
  let ?k3 = "UploadDocument (PBytes ''pdf'') (PStr ''invoice.pdf'') PNone PNone PNone PNone
               :: int ext_call"
  let ?s1 = "\<lparr>paperless = Opened, lexoffice = Unopened, world = Suc 0, calls = [?k0]\<rparr>
               :: (int, nat) runner"
  let ?s2 = "\<lparr>paperless = Opened, lexoffice = Unopened, world = 3,
               calls = [?k0, DownloadDocument (PInt 7), GetDocument (PInt 7)]\<rparr>
               :: (int, nat) runner"
  let ?s3 = "\<lparr>paperless = Opened, lexoffice = Unopened, world = 4,
               calls = [?k0, DownloadDocument (PInt 7), GetDocument (PInt 7), ?k3]\<rparr>
               :: (int, nat) runner"
  let ?ctxs = "[?td, ?c1, ?c2, ?c3]"
  let ?sts = "[fresh_runner, ?s1, ?s2, ?s3]"
  let ?results = "[?r0, ?r1, ?r2]"
  have h: "demo_db ''w2'' = Some filing_workflow" "enabled filing_workflow"
    "triggers filing_workflow = []"
    by (simp_all add: demo_db_def filing_workflow_def)
  have acts: "?acts = sort_key sort_order (actions filing_workflow)"
    by (simp add: filing_workflow_def)
  have step: "\<forall>i < length ?acts. \<exists>c.
      run_action demo_runtime demo_services (?acts ! i) (?ctxs ! i) (?sts ! i)
        = (Inr (?results ! i), c, ?sts ! Suc i)
      \<and> ?ctxs ! Suc i = dict_update c (?results ! i)"
    by (simp add: All_less_Suc Let_def demo_simps run_simps)
  have "execute_workflow demo_runtime demo_services demo_db ''w2'' ?td fresh_runner
        = Inr (\<lparr>workflow_id = ''w2'', status = ''success'', input_data = ?td,
                output_data =
                  Some (PDict [(''actions'',
                    PList (map (\<lambda>(a, r). PDict [(''action_type'', PStr (action_type a)),
                                                  (''result'', PDict r)])
                             (zip ?acts ?results)))]),
                error_message = None\<rparr>,
               close (?sts ! length ?acts))"
  proof -
    note t = execute_workflow_no_triggers
        [where db = demo_db and wid = "''w2''" and w = filing_workflow and R = demo_runtime
           and S = demo_services and st = fresh_runner and td = ?td and acts = ?acts
           and ctxs = ?ctxs and sts = ?sts and results = ?results,
         OF h, THEN conjunct2]
    have len: "length ?ctxs = Suc (length ?acts)" "length ?sts = Suc (length ?acts)"
      "length ?results = length ?acts" "?ctxs ! 0 = ?td" "?sts ! 0 = fresh_runner"
      by simp_all
    from t acts len step show ?thesis
      by blast
  qed
  then show ?thesis
    using h acts [symmetric] by (simp add: close_def close_handle_def)
qed

section \<open>The condition evaluator and the trigger matcher\<close>

text \<open>
  C4. The condition evaluator is to return a boolean and never to raise, on every
  condition and event, a \<^verbatim>\<open>matches\<close> leaf with an arbitrary text as its pattern
  included. It raises on such a leaf: whenever the field resolves to a text and
  \<^verbatim>\<open>re.search\<close> raises on the pattern, the exception leaves the evaluator, since the
  \<^verbatim>\<open>matches\<close> branch calls it without the \<^verbatim>\<open>try\<close> that guards the branches of
  \<^verbatim>\<open>gt\<close> and \<^verbatim>\<open>lt\<close>.
\<close>

theorem evaluate_conditions_matches_raises:
  "resolve_field R (PStr path) ev = Inr (PStr s) \<Longrightarrow> re_search R pat s = Inl e \<Longrightarrow>
     evaluate_conditions R
       (PDict [(''field'', PStr path), (''operator'', PStr ''matches''), (''value'', PStr pat)])
       ev = Inl e"
  by (simp add: py_get_def py_get_default_def compare_def py_eq_PStr)

text \<open>
  The pattern that is an opening parenthesis alone, which \<^verbatim>\<open>re.search\<close> rejects with
  \<^verbatim>\<open>re.error\<close>, against the title of an event.
\<close>

theorem evaluate_conditions_matches_raises_witness:
  "resolve_field demo_runtime (PStr ''title'') [(''title'', PStr ''x'')] = Inr (PStr ''x'')
   \<and> re_search demo_runtime ''('' ''x''
       = Inl (Exn ''error'' ''missing ), unterminated subpattern at position 0'')
   \<and> evaluate_conditions demo_runtime
        (PDict [(''field'', PStr ''title''), (''operator'', PStr ''matches''),
                (''value'', PStr ''('')])
        [(''title'', PStr ''x'')]
       = Inl (Exn ''error'' ''missing ), unterminated subpattern at position 0'')"
proof -
  have h1: "resolve_field demo_runtime (PStr ''title'') [(''title'', PStr ''x'')]
              = Inr (PStr ''x'')"
    by (simp add: resolve_field_def py_get_def)
  have h2: "re_search demo_runtime ''('' ''x''
              = Inl (Exn ''error'' ''missing ), unterminated subpattern at position 0'')"
    by (simp add: demo_runtime_def)
  show ?thesis
    using h1 h2 evaluate_conditions_matches_raises [OF h1 h2]
    by simp
qed

text \<open>
  C5. If the \<^verbatim>\<open>source\<close> field of the event holds a true value (a text that is not
  empty, say) that differs from the source of the trigger, the trigger does not match;
  the same holds for \<^verbatim>\<open>event_type\<close>; a field that is absent or holds a false value
  (the empty text, \<^verbatim>\<open>None\<close>, 0) passes its gate; and when both gates pass and the
  trigger has no condition tree, or an empty one, the trigger matches.
\<close>

theorem evaluate_trigger_gates:
  "(map_of ev ''source'' = Some s \<longrightarrow> truthy R s \<longrightarrow> s \<noteq> PStr (source t)
      \<longrightarrow> evaluate_trigger R t ev = Inr False)
   \<and> (map_of ev ''event_type'' = Some k \<longrightarrow> truthy R k \<longrightarrow> k \<noteq> PStr (event_type t)
      \<longrightarrow> evaluate_trigger R t ev = Inr False)
   \<and> (\<not> (truthy R (py_get_default ev ''source'' (PStr []))
            \<and> py_get_default ev ''source'' (PStr []) \<noteq> PStr (source t))
      \<longrightarrow> \<not> (truthy R (py_get_default ev ''event_type'' (PStr []))
            \<and> py_get_default ev ''event_type'' (PStr []) \<noteq> PStr (event_type t))
      \<longrightarrow> conditions t = None \<or> conditions t = Some []
      \<longrightarrow> evaluate_trigger R t ev = Inr True)"
  by (auto simp: evaluate_trigger_def py_get_default_def py_eq_PStr or_empty_def Let_def)

text \<open>
  A trigger of the document service for created documents, without conditions: an event
  of the accounting service and an event for a deleted document do not match, an event
  with both fields equal does.
\<close>

theorem evaluate_trigger_gates_witness:
  "truthy demo_runtime (PStr ''lexoffice'') \<and> (PStr ''lexoffice'' :: int pv) \<noteq> PStr ''paperless''
   \<and> evaluate_trigger demo_runtime
        \<lparr>source = ''paperless'', event_type = ''document_created'', conditions = None\<rparr>
        [(''source'', PStr ''lexoffice''), (''event_type'', PStr ''document_created'')] = Inr False
   \<and> truthy demo_runtime (PStr ''document_deleted'')
   \<and> (PStr ''document_deleted'' :: int pv) \<noteq> PStr ''document_created''
   \<and> evaluate_trigger demo_runtime
        \<lparr>source = ''paperless'', event_type = ''document_created'', conditions = None\<rparr>
        [(''source'', PStr ''paperless''), (''event_type'', PStr ''document_deleted'')] = Inr False
   \<and> evaluate_trigger demo_runtime
        \<lparr>source = ''paperless'', event_type = ''document_created'', conditions = None\<rparr>
        [(''source'', PStr ''paperless''), (''event_type'', PStr ''document_created'')] = Inr True"
  using
    evaluate_trigger_gates
      [of "[(''source'', PStr ''lexoffice''), (''event_type'', PStr ''document_created'')]"
          "PStr ''lexoffice''" demo_runtime
          "\<lparr>source = ''paperless'', event_type = ''document_created'', conditions = None\<rparr>"
          "PStr ''document_created''"]
    evaluate_trigger_gates
      [of "[(''source'', PStr ''paperless''), (''event_type'', PStr ''document_deleted'')]"
          "PStr ''paperless''" demo_runtime
          "\<lparr>source = ''paperless'', event_type = ''document_created'', conditions = None\<rparr>"
          "PStr ''document_deleted''"]
    evaluate_trigger_gates
      [of "[(''source'', PStr ''paperless''), (''event_type'', PStr ''document_created'')]"
          "PStr ''paperless''" demo_runtime
          "\<lparr>source = ''paperless'', event_type = ''document_created'', conditions = None\<rparr>"
          "PStr ''document_created''"]
  by (simp add: demo_simps)

text \<open>
  An event whose \<^verbatim>\<open>source\<close> field is present and holds the empty text: the field
  differs from the source of the trigger, and the trigger matches.
\<close>

theorem evaluate_trigger_empty_source_matches:
  "map_of [(''source'', PStr [])] ''source'' = Some (PStr [] :: int pv)
   \<and> (PStr [] :: int pv) \<noteq> PStr ''paperless''
   \<and> evaluate_trigger demo_runtime
        \<lparr>source = ''paperless'', event_type = ''document_created'', conditions = None\<rparr>
        [(''source'', PStr [])] = Inr True"
  by (simp add: evaluate_trigger_def demo_simps)

text \<open>
  C6. Field resolution of a dot-separated path: a segment against a list either indexes
  it or resolves to absent. On the data \<^verbatim>\<open>{"a": {"b": [10, 20]}}\<close> the path whose third
  segment is the superscript two (U+00B2) does neither: \<^verbatim>\<open>isdigit()\<close> accepts the
  segment, \<^verbatim>\<open>int()\<close> rejects it, and the resolution raises \<^verbatim>\<open>ValueError\<close>.
\<close>

theorem resolve_field_superscript_digit:
  "resolve_field R (PStr (''a.b.'' @ [CHR 0xB2]))
     [(''a'', PDict [(''b'', PList [PInt 10, PInt 20])])]
   = Inl (Fault ''ValueError'' ''int'')"
  by (simp add: resolve_field_def py_get_def py_isdigit_def is_digit_char_def
        is_decimal_char_def py_int_def)

text \<open>
  C7. A leaf condition without a \<^verbatim>\<open>field\<close> key, that is a dictionary with none of the
  keys \<^verbatim>\<open>all\<close>, \<^verbatim>\<open>any\<close> and \<^verbatim>\<open>field\<close>, evaluates to true on every event.
\<close>

theorem evaluate_conditions_missing_field:
  "map_of cond ''all'' = None \<Longrightarrow> map_of cond ''any'' = None \<Longrightarrow>
   map_of cond ''field'' = None \<Longrightarrow>
   evaluate_conditions R (PDict cond) ev = Inr True"
  by (simp add: py_get_def)

text \<open>A leaf that holds an operator and a value only.\<close>

theorem evaluate_conditions_missing_field_witness:
  "map_of [(''operator'', PStr ''gt''), (''value'', PInt 3)] ''field'' = (None :: int pv option)
   \<and> evaluate_conditions demo_runtime (PDict [(''operator'', PStr ''gt''), (''value'', PInt 3)])
        [(''document_id'', PInt 1)] = Inr True"
proof -
  let ?cond = "[(''operator'', PStr ''gt''), (''value'', PInt 3)] :: int pdict"
  have h: "map_of ?cond ''all'' = None" "map_of ?cond ''any'' = None"
    "map_of ?cond ''field'' = None"
    by simp_all
  show ?thesis
    using h(3) evaluate_conditions_missing_field [OF h, of demo_runtime "[(''document_id'', PInt 1)]"]
    by simp
qed

text \<open>
  C8. On every event the composite \<^verbatim>\<open>{all: []}\<close> evaluates to true and the composite
  \<^verbatim>\<open>{any: []}\<close> evaluates to false.
\<close>

theorem evaluate_conditions_empty_composites:
  "evaluate_conditions R (PDict [(''all'', PList [])]) ev = Inr True
   \<and> evaluate_conditions R (PDict [(''any'', PList [])]) ev = Inr False"
  by simp

text \<open>The two composites on an event of the document service.\<close>

theorem evaluate_conditions_empty_composites_witness:
  "evaluate_conditions demo_runtime (PDict [(''all'', PList [])])
     [(''source'', PStr ''paperless'')] = Inr True
   \<and> evaluate_conditions demo_runtime (PDict [(''any'', PList [])])
     [(''source'', PStr ''paperless'')] = Inr False"
  using evaluate_conditions_empty_composites [of demo_runtime "[(''source'', PStr ''paperless'')]"]
  by simp

text \<open>
  C10. A condition without an \<^verbatim>\<open>operator\<close> key evaluates as the same condition with
  the operator \<^verbatim>\<open>eq\<close> written out: omitting the operator is no error and does not
  reach the branch of the unknown operators. So a leaf without an operator whose
  \<^verbatim>\<open>field\<close> holds a value other than \<^verbatim>\<open>None\<close> compares the resolved value with the
  expected value by \<^verbatim>\<open>==\<close> whenever the resolution returns; a leaf whose
  \<^verbatim>\<open>field\<close> holds \<^verbatim>\<open>None\<close> is taken for a leaf without a field and evaluates to
  true without any comparison.
\<close>

theorem evaluate_conditions_default_operator:
  "map_of cond ''operator'' = None \<Longrightarrow>
     evaluate_conditions R (PDict cond) ev
       = evaluate_conditions R (PDict (cond @ [(''operator'', PStr ''eq'')])) ev
     \<and> (map_of cond ''all'' = None \<longrightarrow> map_of cond ''any'' = None \<longrightarrow>
          map_of cond ''field'' = Some f \<longrightarrow> f \<noteq> PNone \<longrightarrow>
          resolve_field R f ev = Inr actual \<longrightarrow>
          evaluate_conditions R (PDict cond) ev
            = Inr (py_eq R actual (py_get cond ''value'')))
     \<and> (map_of cond ''all'' = None \<longrightarrow> map_of cond ''any'' = None \<longrightarrow>
          map_of cond ''field'' = Some PNone \<longrightarrow>
          evaluate_conditions R (PDict cond) ev = Inr True)"
  by (auto simp: py_get_def py_get_default_def compare_def py_eq_PStr map_add_def
           split: option.splits sum.splits)

text \<open>
  The leaf \<^verbatim>\<open>{field: document_id, value: 42}\<close> on an event with document id 42 and on
  one with document id 41.
\<close>

theorem evaluate_conditions_default_operator_witness:
  "map_of [(''field'', PStr ''document_id''), (''value'', PInt 42)] ''operator''
     = (None :: int pv option)
   \<and> resolve_field demo_runtime (PStr ''document_id'') [(''document_id'', PInt 42)]
       = Inr (PInt 42)
   \<and> resolve_field demo_runtime (PStr ''document_id'') [(''document_id'', PInt 41)]
       = Inr (PInt 41)
   \<and> evaluate_conditions demo_runtime
        (PDict [(''field'', PStr ''document_id''), (''value'', PInt 42)])
        [(''document_id'', PInt 42)] = Inr True
   \<and> evaluate_conditions demo_runtime
        (PDict [(''field'', PStr ''document_id''), (''value'', PInt 42)])
        [(''document_id'', PInt 41)] = Inr False"
proof -
  let ?cond = "[(''field'', PStr ''document_id''), (''value'', PInt 42)] :: int pdict"
  have h: "map_of ?cond ''operator'' = None"
    by simp
  have r1: "resolve_field demo_runtime (PStr ''document_id'') [(''document_id'', PInt 42)]
              = Inr (PInt 42)"
    by (simp add: resolve_field_def py_get_def)
  have r2: "resolve_field demo_runtime (PStr ''document_id'') [(''document_id'', PInt 41)]
              = Inr (PInt 41)"
    by (simp add: resolve_field_def py_get_def)
  show ?thesis
    using h r1 r2
      evaluate_conditions_default_operator
        [OF h, of demo_runtime "[(''document_id'', PInt 42)]" "PStr ''document_id''" "PInt 42"]
      evaluate_conditions_default_operator
        [OF h, of demo_runtime "[(''document_id'', PInt 41)]" "PStr ''document_id''" "PInt 41"]
    by (simp add: demo_simps)
qed

text \<open>
  A leaf that has a \<^verbatim>\<open>field\<close> key holding \<^verbatim>\<open>None\<close>, no operator, and the expected
  value 1, on the empty event: \<^verbatim>\<open>None == 1\<close> is false, and the leaf evaluates to true.
\<close>

theorem evaluate_conditions_null_field_passes:
  "map_of [(''field'', PNone), (''value'', PInt 1)] ''field'' = Some (PNone :: int pv)
   \<and> map_of [(''field'', PNone), (''value'', PInt 1)] ''operator'' = (None :: int pv option)
   \<and> \<not> py_eq demo_runtime PNone (PInt 1)
   \<and> evaluate_conditions demo_runtime (PDict [(''field'', PNone), (''value'', PInt 1)]) []
       = Inr True"
  by (simp add: py_get_def)

section \<open>The tag-document action\<close>

text \<open>
  C9. The tag-document action takes the document id from the parameters of the action
  when they hold a true value for it and from the execution context otherwise, and the
  tag id from the parameters alone. When either of the two is missing or false it
  returns the result \<^verbatim>\<open>not tagged\<close> without raising, and neither asks for the
  add-tag-to-document operation nor changes the outside world; when both are there it
  asks for that operation with these two ids.
\<close>

theorem set_tag_ids:
  assumes "d = py_or R (py_get (or_empty (parameters a)) ''document_id'')
                 (py_get_default ctx ''document_id'' (PInt 0))"
    and "t = py_get_default (or_empty (parameters a)) ''tag_id'' (PInt 0)"
  shows "(\<not> truthy R d \<or> \<not> truthy R t \<longrightarrow>
            set_tag R S a ctx st =
              (Inr [(''tagged'', PBool False),
                    (''reason'', PStr ''Missing document_id or tag_id'')],
               ctx, get_paperless st)
            \<and> calls (snd (snd (set_tag R S a ctx st))) = calls st
            \<and> world (snd (snd (set_tag R S a ctx st))) = world st)
       \<and> (truthy R d \<and> truthy R t \<longrightarrow>
            calls (snd (snd (set_tag R S a ctx st))) = calls st @ [AddTagToDocument d t])"
  using assms
  by (auto simp: set_tag_def call_ext_def get_paperless_def Let_def
        split: prod.splits sum.splits)

text \<open>
  An action that holds a tag id: without a document id anywhere nothing is tagged, with
  the document id 7 in the context the operation is asked for.
\<close>

theorem set_tag_ids_witness:
  "\<not> truthy demo_runtime (PInt 0 :: int pv) \<and> truthy demo_runtime (PInt 3 :: int pv)
   \<and> truthy demo_runtime (PInt 7 :: int pv)
   \<and> set_tag demo_runtime demo_services
       \<lparr>action_type = ''set_tag'', parameters = Some [(''tag_id'', PInt 3)], sort_order = 0\<rparr>
       [(''source'', PStr ''paperless'')] fresh_runner
     = (Inr [(''tagged'', PBool False), (''reason'', PStr ''Missing document_id or tag_id'')],
        [(''source'', PStr ''paperless'')], get_paperless fresh_runner)
   \<and> calls (snd (snd (set_tag demo_runtime demo_services
       \<lparr>action_type = ''set_tag'', parameters = Some [(''tag_id'', PInt 3)], sort_order = 0\<rparr>
       [(''document_id'', PInt 7)] fresh_runner)))
      = [AddTagToDocument (PInt 7) (PInt 3)]"
  using
    set_tag_ids [of "PInt 0" demo_runtime
          "\<lparr>action_type = ''set_tag'', parameters = Some [(''tag_id'', PInt 3)], sort_order = 0\<rparr>"
          "[(''source'', PStr ''paperless'')]" "PInt 3" demo_services fresh_runner]
    set_tag_ids [of "PInt 7" demo_runtime
          "\<lparr>action_type = ''set_tag'', parameters = Some [(''tag_id'', PInt 3)], sort_order = 0\<rparr>"
          "[(''document_id'', PInt 7)]" "PInt 3" demo_services fresh_runner]
  by (simp add: demo_simps fresh_runner_def)

text \<open>
  An action that holds the document id 7, run on a context that holds the tag id 3: the
  tag id of the context is not read, and nothing is tagged.
\<close>

theorem set_tag_ignores_context_tag:
  "set_tag demo_runtime demo_services
     \<lparr>action_type = ''set_tag'', parameters = Some [(''document_id'', PInt 7)], sort_order = 0\<rparr>
     [(''tag_id'', PInt 3)] fresh_runner
   = (Inr [(''tagged'', PBool False), (''reason'', PStr ''Missing document_id or tag_id'')],
      [(''tag_id'', PInt 3)],
      \<lparr>paperless = Opened, lexoffice = Unopened, world = 0, calls = []\<rparr>)"
  by (simp add: set_tag_def demo_simps get_paperless_def fresh_runner_def)

end
